theory Spec2Isabelle
  imports Main
begin

section \<open>Errors\<close>

text \<open>
  Every exception the modelled code can raise is a value. \<open>OverflowError\<close> is Python's
  (date and duration arithmetic out of range), \<open>KeyError\<close> and \<open>MalformedHashError\<close>
  come from the password-hashing context, and \<open>JWSError\<close> is what the signing
  library raises when it cannot sign or verify.
\<close>

datatype error =
    OverflowError
  | KeyError
  | MalformedHashError
  | JWSError

section \<open>Dates and durations\<close>

text \<open>
  A timezone-aware UTC \<open>datetime\<close> has microsecond resolution: it is modelled as the
  number of microseconds since 1970-01-01T00:00:00Z. A \<open>timedelta\<close> is a number of
  microseconds as well. Both types are bounded in Python, and arithmetic that leaves the
  bounds raises \<open>OverflowError\<close>: a \<open>datetime\<close> lies between the first microsecond of
  the year 1 and the last of the year 9999, a \<open>timedelta\<close> between \<open>-999999999\<close> days
  and one microsecond less than \<open>1000000000\<close> days.
\<close>

type_synonym datetime = int
type_synonym timedelta = int

definition datetime_min :: datetime where
  "datetime_min = - 62135596800000000"

definition datetime_max :: datetime where
  "datetime_max = 253402300799999999"

definition timedelta_min :: timedelta where
  "timedelta_min = - (999999999 * 86400 * 1000000)"

definition timedelta_max :: timedelta where
  "timedelta_max = 1000000000 * 86400 * 1000000 - 1"

definition mk_timedelta :: "int \<Rightarrow> error + timedelta" where
  "mk_timedelta us =
     (if timedelta_min \<le> us \<and> us \<le> timedelta_max then Inr us else Inl OverflowError)"

definition timedelta_minutes :: "int \<Rightarrow> error + timedelta" where
  \<comment> \<open>\<open>timedelta(minutes=m)\<close>\<close>
  "timedelta_minutes m = mk_timedelta (m * 60 * 1000000)"

definition timedelta_days :: "int \<Rightarrow> error + timedelta" where
  \<comment> \<open>\<open>timedelta(days=d)\<close>\<close>
  "timedelta_days d = mk_timedelta (d * 86400 * 1000000)"

definition datetime_add :: "datetime \<Rightarrow> timedelta \<Rightarrow> error + datetime" where
  \<comment> \<open>\<open>now + expires_delta\<close>\<close>
  "datetime_add t d =
     (if datetime_min \<le> t + d \<and> t + d \<le> datetime_max then Inr (t + d)
      else Inl OverflowError)"

text \<open>
  \<open>now.timestamp()\<close> is a float: the exact quotient of the microsecond count by
  \<open>1000000\<close>, rounded to the nearest double (ties to even), and \<open>int\<close> truncates it
  towards zero. A double has a significand of 53 bits. A \<open>datetime\<close> is less than
  \<open>2 ^ 38\<close> seconds from the epoch, so the quotient is below \<open>2 ^ 52\<close>: it is scaled
  by the power of two that brings it to \<open>2 ^ 52\<close> or above, rounded to an integer there
  and scaled back.
\<close>

definition round_half_even :: "nat \<Rightarrow> nat \<Rightarrow> nat" where
  \<comment> \<open>the integer nearest to \<open>a / b\<close>, a tie going to the even one\<close>
  "round_half_even a b =
     (let q = a div b; r = a mod b
      in if 2 * r < b then q else if b < 2 * r then q + 1 else if even q then q else q + 1)"

function binade_shift :: "nat \<Rightarrow> nat" where
  "binade_shift n =
     (if n = 0 \<or> 2 ^ 52 * 1000000 \<le> n then 0 else Suc (binade_shift (2 * n)))"
  by pat_completeness auto
termination
  by (relation "measure (\<lambda>n. 2 ^ 52 * 1000000 - n)") auto

declare binade_shift.simps [simp del]

definition float_seconds_floor :: "nat \<Rightarrow> nat" where
  \<comment> \<open>the whole part of the double nearest to \<open>n / 1000000\<close>\<close>
  "float_seconds_floor n =
     round_half_even (n * 2 ^ binade_shift n) 1000000 div 2 ^ binade_shift n"

definition timestamp_int :: "datetime \<Rightarrow> int" where
  \<comment> \<open>\<open>int(now.timestamp())\<close>\<close>
  "timestamp_int t =
     (if 0 \<le> t then int (float_seconds_floor (nat t))
      else - int (float_seconds_floor (nat (- t))))"

definition timegm_utc :: "datetime \<Rightarrow> int" where
  \<comment> \<open>\<open>timegm(t.utctimetuple())\<close>: the time tuple drops the microseconds\<close>
  "timegm_utc t = t div 1000000"

section \<open>Claims and the signing library\<close>

text \<open>
  The payload of \<open>create_token\<close> is a Python dict literal whose values are strings, an
  integer and a \<open>datetime\<close>. It is kept as an association list in the order of the
  literal.
\<close>

datatype claim_value = Str string | Num int | Datetime datetime

type_synonym claims = "(string \<times> claim_value) list"

text \<open>
  The JOSE library is not part of the repository. Its two primitives are parameters:
  \<open>jws_sign claims key algorithm\<close> serialises and signs a claims set, and
  \<open>jws_verify token key algorithm\<close> checks the signature and returns the claims set.
  A key that is not configured is \<open>None\<close>.
\<close>

record jose =
  jws_sign :: "claims \<Rightarrow> string option \<Rightarrow> string \<Rightarrow> error + string"
  jws_verify :: "string \<Rightarrow> string option \<Rightarrow> string \<Rightarrow> error + claims"

definition to_intdate :: "string \<times> claim_value \<Rightarrow> string \<times> claim_value" where
  "to_intdate kv =
     (case kv of
        (k, Datetime t) \<Rightarrow>
          if k \<in> set [''exp'', ''iat'', ''nbf''] then (k, Num (timegm_utc t)) else (k, Datetime t)
      | (k, v) \<Rightarrow> (k, v))"

definition jwt_encode :: "jose \<Rightarrow> claims \<Rightarrow> string option \<Rightarrow> string \<Rightarrow> error + string" where
  \<comment> \<open>\<open>jwt.encode\<close>: a \<open>datetime\<close> under \<open>exp\<close>, \<open>iat\<close> or \<open>nbf\<close> becomes whole seconds,
      then the claims are signed\<close>
  "jwt_encode L cs key alg = jws_sign L (map to_intdate cs) key alg"

section \<open>Signing configuration\<close>

text \<open>
  Modelled from the spec: \<open>app.core.config.settings\<close>, which is not among the sources.
  The signing configuration holds the secret key, the algorithm identifier, the
  access-token lifetime in minutes and the refresh-token lifetime in days.
\<close>

record settings =
  JWT_SECRET_KEY :: "string option"
  JWT_ALG :: string
  ACCESS_TOKEN_MINUTES :: int
  REFRESH_TOKEN_DAYS :: int

section \<open>Token issuer\<close>

text \<open>
  \<open>create_token\<close> reads the clock; the reading \<open>now\<close> is an argument of the model.
\<close>

definition create_token ::
  "jose \<Rightarrow> settings \<Rightarrow> datetime \<Rightarrow> string \<Rightarrow> string \<Rightarrow> timedelta \<Rightarrow> error + string" where
  "create_token L S now sub token_type expires_delta =
     (case datetime_add now expires_delta of
        Inl e \<Rightarrow> Inl e
      | Inr expiry \<Rightarrow>
          jwt_encode L
            [(''sub'', Str sub), (''type'', Str token_type),
             (''iat'', Num (timestamp_int now)), (''exp'', Datetime expiry)]
            (JWT_SECRET_KEY S) (JWT_ALG S))"

definition create_access_token :: "jose \<Rightarrow> settings \<Rightarrow> datetime \<Rightarrow> string \<Rightarrow> error + string" where
  "create_access_token L S now sub =
     (case timedelta_minutes (ACCESS_TOKEN_MINUTES S) of
        Inl e \<Rightarrow> Inl e
      | Inr d \<Rightarrow> create_token L S now sub ''access'' d)"

definition create_refresh_token :: "jose \<Rightarrow> settings \<Rightarrow> datetime \<Rightarrow> string \<Rightarrow> error + string" where
  "create_refresh_token L S now sub =
     (case timedelta_days (REFRESH_TOKEN_DAYS S) of
        Inl e \<Rightarrow> Inl e
      | Inr d \<Rightarrow> create_token L S now sub ''refresh'' d)"

text \<open>
  The claims set that reaches the signer: the payload of \<open>create_token\<close> after
  \<open>jwt_encode\<close> has replaced the expiry date by whole seconds.
\<close>

definition signed_claims :: "datetime \<Rightarrow> string \<Rightarrow> string \<Rightarrow> timedelta \<Rightarrow> claims" where
  "signed_claims now sub token_type expires_delta =
     [(''sub'', Str sub), (''type'', Str token_type),
      (''iat'', Num (timestamp_int now)), (''exp'', Num (timegm_utc (now + expires_delta)))]"

section \<open>Reading claims\<close>

definition claim_int :: "claims \<Rightarrow> string \<Rightarrow> int option" where
  "claim_int cs k = (case map_of cs k of Some (Num n) \<Rightarrow> Some n | _ \<Rightarrow> None)"

definition claim_str :: "claims \<Rightarrow> string \<Rightarrow> string option" where
  "claim_str cs k = (case map_of cs k of Some (Str s) \<Rightarrow> Some s | _ \<Rightarrow> None)"

subsection \<open>What is assumed of the signing library\<close>

definition serializable :: "claims \<Rightarrow> bool" where
  \<comment> \<open>a claims set without \<open>datetime\<close> values can be written as JSON\<close>
  "serializable cs = list_all (\<lambda>kv. case snd kv of Datetime t \<Rightarrow> False | _ \<Rightarrow> True) cs"

definition verify_inverts_sign :: "jose \<Rightarrow> bool" where
  \<comment> \<open>verifying a signed token with the key and algorithm that signed it returns the claims\<close>
  "verify_inverts_sign L =
     (\<forall>cs key alg token. jws_sign L cs key alg = Inr token \<longrightarrow>
        jws_verify L token key alg = Inr cs)"

definition signer_accepts :: "jose \<Rightarrow> string option \<Rightarrow> string \<Rightarrow> bool" where
  \<comment> \<open>the library signs every serialisable claims set under this key and algorithm\<close>
  "signer_accepts L key alg =
     (\<forall>cs. serializable cs \<longrightarrow> (\<exists>token. jws_sign L cs key alg = Inr token))"

definition signer_rejects :: "jose \<Rightarrow> string option \<Rightarrow> string \<Rightarrow> bool" where
  \<comment> \<open>the library refuses to sign under this key and algorithm\<close>
  "signer_rejects L key alg = (\<forall>cs. jws_sign L cs key alg = Inl JWSError)"

section \<open>Credential hasher\<close>

text \<open>
  \<open>hash_password\<close> and \<open>verify_password\<close> delegate to the context
  \<open>pwd_context\<close> of the password-hashing library, which is not among the sources. A
  hash string encodes the algorithm identifier, the cost parameters, the salt and the
  derived digest. The key-derivation function, the default cost parameters of a scheme and
  the text encoding of a hash are parameters.
\<close>

record hash_fields =
  scheme :: string
  params :: string
  salt :: string
  digest :: string

record passlib =
  kdf :: "string \<Rightarrow> string \<Rightarrow> string \<Rightarrow> string \<Rightarrow> string"
  default_params :: "string \<Rightarrow> string"
  render :: "hash_fields \<Rightarrow> string"
  parse :: "string \<Rightarrow> hash_fields option"

record crypt_context =
  schemes :: "string list"
  deprecated :: string

definition pwd_context :: crypt_context where
  "pwd_context = \<lparr>schemes = [''argon2''], deprecated = ''auto''\<rparr>"

text \<open>
  Modelled from the spec: \<open>pwd_context.hash\<close>, library code that is not among the
  sources. New hashes use the current scheme of the context, the first of its list, with
  the default cost parameters and a fresh salt. The salt the library draws is an argument of
  the model.
\<close>

definition ctx_hash :: "passlib \<Rightarrow> crypt_context \<Rightarrow> string \<Rightarrow> string \<Rightarrow> error + string" where
  "ctx_hash P ctx slt password =
     (case schemes ctx of
        [] \<Rightarrow> Inl KeyError
      | current # older \<Rightarrow>
          Inr (render P \<lparr>scheme = current, params = default_params P current, salt = slt,
                 digest = kdf P current (default_params P current) slt password\<rparr>))"

definition recognized :: "passlib \<Rightarrow> crypt_context \<Rightarrow> string \<Rightarrow> bool" where
  \<comment> \<open>the hash string parses and names a scheme of the context\<close>
  "recognized P ctx hashed =
     (case parse P hashed of None \<Rightarrow> False | Some f \<Rightarrow> scheme f \<in> set (schemes ctx))"

text \<open>
  Modelled from the spec: \<open>pwd_context.verify\<close>, library code that is not among the
  sources. Verification recomputes the digest from the scheme, parameters and salt found in
  the hash string and compares it with the stored digest. A hash string that does not parse
  or names a scheme outside the context is not a recognized encoding. A deprecated scheme
  of the context still verifies.
\<close>

definition ctx_verify :: "passlib \<Rightarrow> crypt_context \<Rightarrow> string \<Rightarrow> string \<Rightarrow> error + bool" where
  "ctx_verify P ctx password hashed =
     (case parse P hashed of
        None \<Rightarrow> Inl MalformedHashError
      | Some f \<Rightarrow>
          if scheme f \<in> set (schemes ctx)
          then Inr (kdf P (scheme f) (params f) (salt f) password = digest f)
          else Inl MalformedHashError)"

definition hash_password :: "passlib \<Rightarrow> string \<Rightarrow> string \<Rightarrow> error + string" where
  "hash_password P slt password = ctx_hash P pwd_context slt password"

definition verify_password :: "passlib \<Rightarrow> string \<Rightarrow> string \<Rightarrow> error + bool" where
  "verify_password P password hashed = ctx_verify P pwd_context password hashed"

definition parse_inverts_render :: "passlib \<Rightarrow> bool" where
  \<comment> \<open>the text encoding of a hash can be read back\<close>
  "parse_inverts_render P = (\<forall>f. parse P (render P f) = Some f)"

section \<open>A reference library\<close>

text \<open>
  The assumptions on the two libraries can be met. The reference signer writes the claims
  in a self-delimiting text form and appends the algorithm and the key in place of a
  signature; the reference hash encoding writes the four fields one after the other. They
  offer no security and serve to instantiate the theorems below. Like an HMAC signer, the
  reference signer takes any string as a key, the empty string included, and has nothing to
  sign with when no key is given.
\<close>

fun put_str :: "string \<Rightarrow> string \<Rightarrow> string" where
  "put_str [] rest = CHR ''.'' # rest"
| "put_str (c # cs) rest = CHR ''c'' # c # put_str cs rest"

fun get_str :: "string \<Rightarrow> (string \<times> string) option" where
  "get_str [] = None"
| "get_str (t # r) =
     (if t = CHR ''.'' then Some ([], r)
      else if t = CHR ''c'' then
        (case r of
           [] \<Rightarrow> None
         | c # r' \<Rightarrow> map_option (\<lambda>(s, r''). (c # s, r'')) (get_str r'))
      else None)"

fun put_nat :: "nat \<Rightarrow> string \<Rightarrow> string" where
  "put_nat n rest =
     (if n = 0 then CHR ''.'' # rest
      else (if even n then CHR ''0'' else CHR ''1'') # put_nat (n div 2) rest)"

fun get_nat :: "string \<Rightarrow> (nat \<times> string) option" where
  "get_nat [] = None"
| "get_nat (t # r) =
     (if t = CHR ''.'' then Some (0, r)
      else if t = CHR ''0'' then map_option (\<lambda>(n, r'). (2 * n, r')) (get_nat r)
      else if t = CHR ''1'' then map_option (\<lambda>(n, r'). (2 * n + 1, r')) (get_nat r)
      else None)"

declare put_nat.simps [simp del]

definition put_int :: "int \<Rightarrow> string \<Rightarrow> string" where
  "put_int i rest =
     (if i < 0 then CHR ''-'' # put_nat (nat (- i)) rest else CHR ''+'' # put_nat (nat i) rest)"

definition get_int :: "string \<Rightarrow> (int \<times> string) option" where
  "get_int s =
     (case s of
        [] \<Rightarrow> None
      | t # r \<Rightarrow>
          if t = CHR ''-'' then map_option (\<lambda>(n, r'). (- int n, r')) (get_nat r)
          else if t = CHR ''+'' then map_option (\<lambda>(n, r'). (int n, r')) (get_nat r)
          else None)"

fun put_value :: "claim_value \<Rightarrow> string \<Rightarrow> string" where
  "put_value (Str s) rest = CHR ''s'' # put_str s rest"
| "put_value (Num n) rest = CHR ''n'' # put_int n rest"
| "put_value (Datetime t) rest = CHR ''d'' # put_int t rest"

definition get_value :: "string \<Rightarrow> (claim_value \<times> string) option" where
  "get_value s =
     (case s of
        [] \<Rightarrow> None
      | t # r \<Rightarrow>
          if t = CHR ''s'' then map_option (\<lambda>(x, r'). (Str x, r')) (get_str r)
          else if t = CHR ''n'' then map_option (\<lambda>(x, r'). (Num x, r')) (get_int r)
          else if t = CHR ''d'' then map_option (\<lambda>(x, r'). (Datetime x, r')) (get_int r)
          else None)"

fun put_items :: "claims \<Rightarrow> string \<Rightarrow> string" where
  "put_items [] rest = rest"
| "put_items ((k, v) # cs) rest = put_str k (put_value v (put_items cs rest))"

fun get_items :: "nat \<Rightarrow> string \<Rightarrow> (claims \<times> string) option" where
  "get_items 0 s = Some ([], s)"
| "get_items (Suc n) s =
     (case get_str s of
        None \<Rightarrow> None
      | Some (k, r) \<Rightarrow>
          (case get_value r of
             None \<Rightarrow> None
           | Some (v, r') \<Rightarrow> map_option (\<lambda>(cs, r''). ((k, v) # cs, r'')) (get_items n r')))"

definition put_claims :: "claims \<Rightarrow> string \<Rightarrow> string" where
  "put_claims cs rest = put_nat (length cs) (put_items cs rest)"

definition get_claims :: "string \<Rightarrow> (claims \<times> string) option" where
  "get_claims s =
     (case get_nat s of None \<Rightarrow> None | Some (n, r) \<Rightarrow> get_items n r)"

definition plain_sign :: "claims \<Rightarrow> string option \<Rightarrow> string \<Rightarrow> error + string" where
  "plain_sign cs key alg =
     (if alg \<notin> set [''HS256'', ''HS384'', ''HS512''] then Inl JWSError
      else case key of
        None \<Rightarrow> Inl JWSError
      | Some k \<Rightarrow>
          if serializable cs then Inr (put_claims cs (put_str alg (put_str k [])))
          else Inl JWSError)"

definition plain_verify :: "string \<Rightarrow> string option \<Rightarrow> string \<Rightarrow> error + claims" where
  "plain_verify token key alg =
     (case get_claims token of
        None \<Rightarrow> Inl JWSError
      | Some (cs, r) \<Rightarrow>
          (case get_str r of
             None \<Rightarrow> Inl JWSError
           | Some (a, r') \<Rightarrow>
               (case get_str r' of
                  None \<Rightarrow> Inl JWSError
                | Some (k, r'') \<Rightarrow>
                    if r'' = [] \<and> a = alg \<and> key = Some k then Inr cs else Inl JWSError)))"

definition plain_jose :: jose where
  "plain_jose = \<lparr>jws_sign = plain_sign, jws_verify = plain_verify\<rparr>"

definition plain_render :: "hash_fields \<Rightarrow> string" where
  "plain_render f = put_str (scheme f) (put_str (params f) (put_str (salt f) (put_str (digest f) [])))"

definition plain_parse :: "string \<Rightarrow> hash_fields option" where
  "plain_parse s =
     (case get_str s of
        None \<Rightarrow> None
      | Some (a, r1) \<Rightarrow>
          (case get_str r1 of
             None \<Rightarrow> None
           | Some (b, r2) \<Rightarrow>
               (case get_str r2 of
                  None \<Rightarrow> None
                | Some (c, r3) \<Rightarrow>
                    (case get_str r3 of
                       None \<Rightarrow> None
                     | Some (d, r4) \<Rightarrow>
                         if r4 = [] then Some \<lparr>scheme = a, params = b, salt = c, digest = d\<rparr>
                         else None))))"

definition plain_passlib :: passlib where
  "plain_passlib =
     \<lparr>kdf = (\<lambda>sch par slt password. rev (slt @ password)),
      default_params = (\<lambda>sch. ''m=65536,t=3,p=4''),
      render = plain_render, parse = plain_parse\<rparr>"

definition example_settings :: settings where
  "example_settings =
     \<lparr>JWT_SECRET_KEY = Some ''s3cret'', JWT_ALG = ''HS256'',
      ACCESS_TOKEN_MINUTES = 15, REFRESH_TOKEN_DAYS = 7\<rparr>"

section \<open>Properties of the reference library\<close>

lemma get_put_str: "get_str (put_str s rest) = Some (s, rest)"
  by (induction s) (auto)

lemma get_put_nat: "get_nat (put_nat n rest) = Some (n, rest)"
proof (induction n rest rule: put_nat.induct)
  case (1 n rest)
  show ?case
  proof (cases "n = 0")
    case True
    then show ?thesis by (subst put_nat.simps) simp
  next
    case False
    with 1 have ih: "get_nat (put_nat (n div 2) rest) = Some (n div 2, rest)" by simp
    show ?thesis
      using False ih by (subst put_nat.simps) (auto elim: oddE)
  qed
qed

lemma get_put_int: "get_int (put_int i rest) = Some (i, rest)"
  by (simp add: get_int_def put_int_def get_put_nat)

lemma get_put_value: "get_value (put_value v rest) = Some (v, rest)"
  by (cases v) (simp_all add: get_value_def get_put_str get_put_int)

lemma get_put_items: "get_items (length cs) (put_items cs rest) = Some (cs, rest)"
  by (induction cs) (auto simp: get_put_str get_put_value)

lemma get_put_claims: "get_claims (put_claims cs rest) = Some (cs, rest)"
  by (simp add: get_claims_def put_claims_def get_put_nat get_put_items)

lemma plain_jose_inverts: "verify_inverts_sign plain_jose"
  by (auto simp: verify_inverts_sign_def plain_jose_def plain_sign_def plain_verify_def
      get_put_claims get_put_str split: if_splits option.splits)

lemma plain_jose_accepts: "signer_accepts plain_jose (Some k) ''HS256''"
  by (simp add: signer_accepts_def plain_jose_def plain_sign_def)

lemma plain_jose_rejects_no_key: "signer_rejects plain_jose None alg"
  by (simp add: signer_rejects_def plain_jose_def plain_sign_def)

lemma plain_passlib_inverts: "parse_inverts_render plain_passlib"
  by (simp add: parse_inverts_render_def plain_passlib_def plain_parse_def plain_render_def
      get_put_str)

section \<open>The integer timestamp\<close>

lemma binade_shift_gt:
  "0 < n \<Longrightarrow> n * 2 ^ j < 2 ^ 52 * 1000000 \<Longrightarrow> j < binade_shift n"
proof (induction j arbitrary: n)
  case 0
  then show ?case by (subst binade_shift.simps) simp
next
  case (Suc j)
  have "n \<le> n * 2 ^ Suc j" by simp
  with Suc.prems have small: "n < 2 ^ 52 * 1000000" by linarith
  have "j < binade_shift (2 * n)"
    using Suc.prems by (intro Suc.IH) (simp_all add: mult.assoc)
  with Suc.prems small show ?case by (subst binade_shift.simps) simp
qed

lemma round_half_even_bounds:
  "a div b \<le> round_half_even a b" "round_half_even a b \<le> a div b + 1"
  by (simp_all add: round_half_even_def Let_def)

lemma round_half_even_down: "2 * (a mod b) < b \<Longrightarrow> round_half_even a b = a div b"
  by (simp add: round_half_even_def Let_def)


lemma binade_shift_eqI:
  "0 < n \<Longrightarrow> 2 ^ 52 * 1000000 \<le> n * 2 ^ k \<Longrightarrow>
   (k = 0 \<or> n * 2 ^ (k - 1) < 2 ^ 52 * 1000000) \<Longrightarrow> binade_shift n = k"
proof (induction k arbitrary: n)
  case 0
  then show ?case by (subst binade_shift.simps) simp
next
  case (Suc k)
  from Suc.prems have below: "n * 2 ^ k < 2 ^ 52 * 1000000" by simp
  have "n \<le> n * 2 ^ k" by simp
  with below have small: "n < 2 ^ 52 * 1000000" by linarith
  have "binade_shift (2 * n) = k"
  proof (rule Suc.IH)
    show "0 < 2 * n" using Suc.prems by simp
    show "2 ^ 52 * 1000000 \<le> 2 * n * 2 ^ k" using Suc.prems by (simp add: mult.assoc mult.left_commute)
    show "k = 0 \<or> 2 * n * 2 ^ (k - 1) < 2 ^ 52 * 1000000"
    proof (cases k)
      case 0
      then show ?thesis by simp
    next
      case (Suc j)
      with below show ?thesis by (simp add: mult.assoc mult.left_commute)
    qed
  qed
  with Suc.prems small show ?case by (subst binade_shift.simps) simp
qed


lemma div_mult_le_mult_div: "0 < D \<Longrightarrow> (n::nat) div D * K \<le> (n * K) div D"
proof -
  assume D: "0 < D"
  have "n div D * D \<le> n" by simp
  then have "n div D * D * K \<le> n * K" by (rule mult_le_mono1)
  then have "n div D * K * D \<le> n * K" by (simp add: mult.assoc mult.commute)
  then show ?thesis using D by (simp add: less_eq_div_iff_mult_less_eq)
qed

lemma le_div_of_mult_le: "0 < (K::nat) \<Longrightarrow> a * K \<le> m \<Longrightarrow> a \<le> m div K"
  using less_eq_div_iff_mult_less_eq by blast

lemma less_next_multiple: "0 < (D::nat) \<Longrightarrow> n < (n div D + 1) * D"
  using div_less_iff_less_mult less_add_one by blast

lemma mult_less_scaled: "0 < (K::nat) \<Longrightarrow> n < b * D \<Longrightarrow> n * K < b * K * D"
  by simp

lemma div_less_of_less_mult: "0 < (D::nat) \<Longrightarrow> a < b * D \<Longrightarrow> a div D < b"
  by (simp add: less_mult_imp_div_less)

lemma div_le_of_le_mult: "0 < (K::nat) \<Longrightarrow> m \<le> b * K \<Longrightarrow> m div K \<le> b"
  by (metis div_le_mono less_nat_zero_code nonzero_mult_div_cancel_right)

lemma float_seconds_floor_lower: "n div 1000000 \<le> float_seconds_floor n"
proof -
  define K :: nat where "K = 2 ^ binade_shift n"
  have K: "0 < K" by (simp add: K_def)
  have "n div 1000000 * K \<le> (n * K) div 1000000"
    by (rule div_mult_le_mult_div) simp
  also have "\<dots> \<le> round_half_even (n * K) 1000000"
    by (rule round_half_even_bounds)
  finally have "n div 1000000 \<le> round_half_even (n * K) 1000000 div K"
    using K by (intro le_div_of_mult_le)
  then show ?thesis by (simp add: float_seconds_floor_def K_def)
qed

lemma float_seconds_floor_upper: "float_seconds_floor n \<le> n div 1000000 + 1"
proof -
  define K :: nat where "K = 2 ^ binade_shift n"
  have K: "0 < K" by (simp add: K_def)
  have "n < (n div 1000000 + 1) * 1000000"
    by (rule less_next_multiple) simp
  then have "n * K < (n div 1000000 + 1) * K * 1000000"
    using K by (rule mult_less_scaled [rotated])
  then have "(n * K) div 1000000 < (n div 1000000 + 1) * K"
    by (intro div_less_of_less_mult) simp_all
  then have "round_half_even (n * K) 1000000 \<le> (n div 1000000 + 1) * K"
    using round_half_even_bounds(2) [of "n * K" 1000000] by linarith
  then have "round_half_even (n * K) 1000000 div K \<le> n div 1000000 + 1"
    using K by (intro div_le_of_le_mult)
  then show ?thesis by (simp add: float_seconds_floor_def K_def)
qed

lemma float_seconds_floor_exact:
  assumes "n < 2 ^ 34 * 1000000"
  shows "float_seconds_floor n = n div 1000000"
proof (cases "n = 0")
  case True
  then show ?thesis
    by (simp add: float_seconds_floor_def round_half_even_def)
next
  case False
  define k where "k = binade_shift n"
  define K :: nat where "K = 2 ^ k"
  define S where "S = n div 1000000"
  define m where "m = round_half_even (n * K) 1000000"
  have "n * 2 ^ 18 < 2 ^ 52 * 1000000" using assms by simp
  with False have "18 < k" unfolding k_def by (intro binade_shift_gt) simp_all
  then have "(2::nat) ^ 19 \<le> 2 ^ k" by (intro power_increasing) simp_all
  then have big: "524288 \<le> K" by (simp add: K_def)
  then have K: "0 < K" by simp
  have lower: "S * K \<le> m"
  proof -
    have "S * K \<le> (n * K) div 1000000" unfolding S_def by (rule div_mult_le_mult_div) simp
    also have "\<dots> \<le> m" unfolding m_def by (rule round_half_even_bounds)
    finally show ?thesis .
  qed
  have n_hi: "n + 1 \<le> (S + 1) * 1000000"
    using less_next_multiple [of 1000000 n] by (simp add: S_def)
  have q_lt: "(n * K) div 1000000 < (S + 1) * K"
  proof -
    have "n < (S + 1) * 1000000" using n_hi by simp
    then have "n * K < (S + 1) * K * 1000000" using K by (rule mult_less_scaled [rotated])
    then show ?thesis by (intro div_less_of_less_mult) simp_all
  qed
  have upper: "m < (S + 1) * K"
  proof (cases "(n * K) div 1000000 + 1 < (S + 1) * K")
    case True
    then show ?thesis
      using round_half_even_bounds(2) [of "n * K" 1000000] by (simp add: m_def)
  next
    case False
    define Q where "Q = (n * K) div 1000000"
    define R where "R = (n * K) mod 1000000"
    define T where "T = (S + 1) * K"
    from False q_lt have q: "Q + 1 = T" by (simp add: Q_def T_def)
    have "(n + 1) * K \<le> (S + 1) * 1000000 * K" using n_hi by (rule mult_le_mono1)
    then have nk: "n * K + K \<le> T * 1000000"
      by (simp add: algebra_simps T_def)
    have split: "n * K = Q * 1000000 + R" by (simp add: Q_def R_def)
    from q have "Q * 1000000 + 1000000 = T * 1000000" by (simp flip: q)
    with nk split have "R + K \<le> 1000000" by linarith
    with big have "2 * ((n * K) mod 1000000) < 1000000" unfolding R_def by linarith
    then have "m = (n * K) div 1000000" unfolding m_def by (rule round_half_even_down)
    with q_lt show ?thesis by simp
  qed
  have "m div K = S"
    using lower upper K by (intro div_nat_eqI) (simp_all add: mult.commute)
  then show ?thesis
    by (simp add: float_seconds_floor_def m_def K_def k_def S_def)
qed


lemma timestamp_int_exact:
  assumes "0 \<le> t" and "t < 17179869184000000"
  shows "timestamp_int t = t div 1000000"
proof -
  from assms have "nat t < 2 ^ 34 * 1000000" by simp
  then have "float_seconds_floor (nat t) = nat t div 1000000"
    by (rule float_seconds_floor_exact)
  with assms(1) show ?thesis
    by (simp add: timestamp_int_def zdiv_int)
qed

lemma timestamp_int_upper: "timestamp_int t \<le> t div 1000000 + 1"
proof (cases "0 \<le> t")
  case True
  have "int (float_seconds_floor (nat t)) \<le> int (nat t div 1000000 + 1)"
    using float_seconds_floor_upper [of "nat t"] by (simp only: of_nat_le_iff)
  with True show ?thesis by (simp add: timestamp_int_def zdiv_int)
next
  case False
  have "int (nat (- t) div 1000000) \<le> int (float_seconds_floor (nat (- t)))"
    using float_seconds_floor_lower [of "nat (- t)"] by (simp only: of_nat_le_iff)
  with False have "- int (float_seconds_floor (nat (- t))) \<le> - ((- t) div 1000000)"
    by (simp add: zdiv_int)
  also have "\<dots> \<le> t div 1000000 + 1" by linarith
  finally show ?thesis using False by (simp add: timestamp_int_def)
qed

lemma timestamp_int_rounds_up: "timestamp_int 17179869184999999 = 17179869185"
proof -
  have "binade_shift 17179869184999999 = 18"
    by (rule binade_shift_eqI) simp_all
  then show ?thesis
    by (simp add: timestamp_int_def float_seconds_floor_def round_half_even_def)
qed

lemma timestamp_int_before_epoch: "timestamp_int (- 500000) = 0"
proof -
  have "binade_shift 500000 = 53"
    by (rule binade_shift_eqI) simp_all
  then show ?thesis
    by (simp add: timestamp_int_def float_seconds_floor_def round_half_even_def)
qed

section \<open>What the token issuer signs\<close>

lemma create_token_in_range:
  "datetime_min \<le> now + d \<Longrightarrow> now + d \<le> datetime_max \<Longrightarrow>
   create_token L S now sub ty d =
     jws_sign L (signed_claims now sub ty d) (JWT_SECRET_KEY S) (JWT_ALG S)"
  by (simp add: create_token_def datetime_add_def jwt_encode_def to_intdate_def signed_claims_def)

lemma create_token_out_of_range:
  "\<not> (datetime_min \<le> now + d \<and> now + d \<le> datetime_max) \<Longrightarrow>
   create_token L S now sub ty d = Inl OverflowError"
  by (auto simp add: create_token_def datetime_add_def)

lemma create_token_Inr:
  "create_token L S now sub ty d = Inr token \<Longrightarrow>
   jws_sign L (signed_claims now sub ty d) (JWT_SECRET_KEY S) (JWT_ALG S) = Inr token"
  by (cases "datetime_min \<le> now + d \<and> now + d \<le> datetime_max")
     (simp_all add: create_token_in_range create_token_out_of_range)

lemma create_access_token_Inr:
  "create_access_token L S now sub = Inr token \<Longrightarrow>
   create_token L S now sub ''access'' (ACCESS_TOKEN_MINUTES S * 60000000) = Inr token"
  by (auto simp: create_access_token_def timedelta_minutes_def mk_timedelta_def mult.commute
      split: if_splits)

lemma create_refresh_token_Inr:
  "create_refresh_token L S now sub = Inr token \<Longrightarrow>
   create_token L S now sub ''refresh'' (REFRESH_TOKEN_DAYS S * 86400000000) = Inr token"
  by (auto simp: create_refresh_token_def timedelta_days_def mk_timedelta_def mult.commute
      split: if_splits)

lemma serializable_signed_claims: "serializable (signed_claims now sub ty d)"
  by (simp add: serializable_def signed_claims_def)

lemma claim_str_signed:
  "claim_str (signed_claims now sub ty d) ''sub'' = Some sub"
  "claim_str (signed_claims now sub ty d) ''type'' = Some ty"
  by (simp_all add: claim_str_def signed_claims_def)

lemma claim_int_signed:
  "claim_int (signed_claims now sub ty d) ''iat'' = Some (timestamp_int now)"
  "claim_int (signed_claims now sub ty d) ''exp'' = Some (timegm_utc (now + d))"
  by (simp_all add: claim_int_def signed_claims_def)

lemma whole_seconds:
  "0 \<le> now \<Longrightarrow> now < 17179869184000000 \<Longrightarrow>
   timegm_utc (now + k * 1000000) - timestamp_int now = k"
  by (simp add: timegm_utc_def timestamp_int_exact)

lemma at_least_a_second:
  "0 \<le> now \<Longrightarrow> now < 17179869184000000 \<Longrightarrow> 1000000 \<le> d \<Longrightarrow>
   timestamp_int now < timegm_utc (now + d)"
  by (simp add: timegm_utc_def timestamp_int_exact)

lemma at_least_two_seconds:
  assumes "2000000 \<le> d"
  shows "timestamp_int now < timegm_utc (now + d)"
proof -
  have "timestamp_int now \<le> now div 1000000 + 1" by (rule timestamp_int_upper)
  also have "\<dots> < (now + d) div 1000000" using assms by simp
  finally show ?thesis by (simp add: timegm_utc_def)
qed

section \<open>Credential hasher: properties\<close>

text \<open>
  C1. For every password and every salt the hashing operation draws, verifying the
  password against the hash produced for it succeeds, provided the text encoding of a hash
  can be read back.
\<close>

theorem verify_accepts_own_hash:
  assumes "parse_inverts_render P"
  shows "\<exists>h. hash_password P slt p = Inr h \<and> verify_password P p h = Inr True"
  using assms
  by (simp add: hash_password_def verify_password_def ctx_hash_def ctx_verify_def
      pwd_context_def parse_inverts_render_def)

theorem verify_accepts_own_hash_witness:
  "parse_inverts_render plain_passlib \<and>
   (\<exists>h. hash_password plain_passlib ''NaCl'' ''admin123456'' = Inr h \<and>
        verify_password plain_passlib ''admin123456'' h = Inr True)"
  using verify_accepts_own_hash [of plain_passlib "''NaCl''" "''admin123456''"]
    plain_passlib_inverts
  by simp

text \<open>
  C4. For every password and every hash string in a recognized encoding,
  \<open>verify_password\<close> returns a boolean and raises nothing: \<open>True\<close> when the digest
  recomputed from the password equals the stored one, and \<open>False\<close>, not an error, when
  it does not. A hash string that is not in a recognized encoding fails with
  \<open>MalformedHashError\<close>.
\<close>

theorem verify_password_outcomes:
  "if recognized P pwd_context h
   then (\<exists>f. parse P h = Some f \<and>
           (if kdf P (scheme f) (params f) (salt f) p = digest f
            then verify_password P p h = Inr True
            else verify_password P p h = Inr False))
   else verify_password P p h = Inl MalformedHashError"
  by (auto simp: recognized_def verify_password_def ctx_verify_def split: option.splits)

theorem verify_password_outcomes_witness:
  "recognized plain_passlib pwd_context
     (plain_render \<lparr>scheme = ''argon2'', params = ''m=65536,t=3,p=4'', salt = ''NaCl'',
        digest = ''other''\<rparr>) \<and>
   verify_password plain_passlib ''admin123456''
     (plain_render \<lparr>scheme = ''argon2'', params = ''m=65536,t=3,p=4'', salt = ''NaCl'',
        digest = ''other''\<rparr>) = Inr False \<and>
   \<not> recognized plain_passlib pwd_context ''not a hash'' \<and>
   verify_password plain_passlib ''admin123456'' ''not a hash'' = Inl MalformedHashError"
proof -
  let ?h = "plain_render \<lparr>scheme = ''argon2'', params = ''m=65536,t=3,p=4'', salt = ''NaCl'',
        digest = ''other''\<rparr>"
  have p: "parse plain_passlib ?h =
      Some \<lparr>scheme = ''argon2'', params = ''m=65536,t=3,p=4'', salt = ''NaCl'',
        digest = ''other''\<rparr>"
    by (simp add: plain_passlib_def plain_parse_def plain_render_def get_put_str)
  have r: "recognized plain_passlib pwd_context ?h"
    by (simp add: recognized_def p pwd_context_def)
  have n: "\<not> recognized plain_passlib pwd_context ''not a hash''"
    by (simp add: recognized_def plain_passlib_def plain_parse_def)
  have "verify_password plain_passlib ''admin123456'' ?h \<noteq> Inr True"
    using p by (simp add: verify_password_def ctx_verify_def pwd_context_def plain_passlib_def)
  then have "verify_password plain_passlib ''admin123456'' ?h = Inr False"
    using verify_password_outcomes [of plain_passlib ?h "''admin123456''"] r
    by (auto split: if_splits)
  moreover have "verify_password plain_passlib ''admin123456'' ''not a hash'' =
      Inl MalformedHashError"
    using verify_password_outcomes [of plain_passlib "''not a hash''" "''admin123456''"] n
    by simp
  ultimately show ?thesis using r n by simp
qed

text \<open>
  C7. The hash is a function of the password and the salt alone. Two calls on the same
  password with distinct salts give two different hash strings, and \<open>verify_password\<close>
  accepts both against that password.
\<close>

theorem fresh_salts_differ:
  assumes "parse_inverts_render P" and "s1 \<noteq> s2"
  shows "\<exists>h1 h2. hash_password P s1 p = Inr h1 \<and> hash_password P s2 p = Inr h2 \<and>
           h1 \<noteq> h2 \<and> verify_password P p h1 = Inr True \<and> verify_password P p h2 = Inr True"
proof -
  let ?f = "\<lambda>s. \<lparr>scheme = ''argon2'', params = default_params P ''argon2'', salt = s,
                  digest = kdf P ''argon2'' (default_params P ''argon2'') s p\<rparr>"
  have h: "hash_password P s p = Inr (render P (?f s))" for s
    by (simp add: hash_password_def ctx_hash_def pwd_context_def)
  have "render P (?f s1) \<noteq> render P (?f s2)"
  proof
    assume "render P (?f s1) = render P (?f s2)"
    then have "parse P (render P (?f s1)) = parse P (render P (?f s2))" by simp
    with assms(1) have "?f s1 = ?f s2" by (simp add: parse_inverts_render_def)
    with assms(2) show False by simp
  qed
  moreover have "verify_password P p (render P (?f s)) = Inr True" for s
    using assms(1)
    by (simp add: verify_password_def ctx_verify_def pwd_context_def parse_inverts_render_def)
  ultimately show ?thesis using h by simp
qed

theorem fresh_salts_differ_witness:
  "parse_inverts_render plain_passlib \<and> ''NaCl'' \<noteq> ''KCl'' \<and>
   (\<exists>h1 h2. hash_password plain_passlib ''NaCl'' ''admin123456'' = Inr h1 \<and>
      hash_password plain_passlib ''KCl'' ''admin123456'' = Inr h2 \<and> h1 \<noteq> h2 \<and>
      verify_password plain_passlib ''admin123456'' h1 = Inr True \<and>
      verify_password plain_passlib ''admin123456'' h2 = Inr True)"
  using fresh_salts_differ [of plain_passlib "''NaCl''" "''KCl''" "''admin123456''"]
    plain_passlib_inverts
  by simp

section \<open>Token issuer: properties\<close>

text \<open>
  C9. When the configured durations are representable, \<open>create_access_token\<close> is
  \<open>create_token\<close> with the kind \<open>access\<close> and the configured number of minutes, and
  \<open>create_refresh_token\<close> is \<open>create_token\<close> with the kind \<open>refresh\<close> and the
  configured number of days, at the same clock reading and configuration.
\<close>

theorem wrappers_fix_kind_and_lifetime:
  assumes "timedelta_minutes (ACCESS_TOKEN_MINUTES S) = Inr access_delta"
    and "timedelta_days (REFRESH_TOKEN_DAYS S) = Inr refresh_delta"
  shows "create_access_token L S now sub = create_token L S now sub ''access'' access_delta \<and>
         create_refresh_token L S now sub = create_token L S now sub ''refresh'' refresh_delta \<and>
         access_delta = ACCESS_TOKEN_MINUTES S * 60 * 1000000 \<and>
         refresh_delta = REFRESH_TOKEN_DAYS S * 86400 * 1000000"
  using assms
  by (auto simp: create_access_token_def create_refresh_token_def timedelta_minutes_def
      timedelta_days_def mk_timedelta_def split: if_splits)

theorem wrappers_fix_kind_and_lifetime_witness:
  "timedelta_minutes (ACCESS_TOKEN_MINUTES example_settings) = Inr 900000000 \<and>
   timedelta_days (REFRESH_TOKEN_DAYS example_settings) = Inr 604800000000 \<and>
   create_access_token plain_jose example_settings 1700000000123456 ''alice'' =
     create_token plain_jose example_settings 1700000000123456 ''alice'' ''access'' 900000000 \<and>
   create_refresh_token plain_jose example_settings 1700000000123456 ''alice'' =
     create_token plain_jose example_settings 1700000000123456 ''alice'' ''refresh'' 604800000000"
proof -
  have a: "timedelta_minutes (ACCESS_TOKEN_MINUTES example_settings) = Inr 900000000"
    by (simp add: timedelta_minutes_def mk_timedelta_def example_settings_def
        timedelta_min_def timedelta_max_def)
  have r: "timedelta_days (REFRESH_TOKEN_DAYS example_settings) = Inr 604800000000"
    by (simp add: timedelta_days_def mk_timedelta_def example_settings_def
        timedelta_min_def timedelta_max_def)
  show ?thesis
    using wrappers_fix_kind_and_lifetime [OF a r, of plain_jose 1700000000123456 "''alice''"] a r
    by simp
qed

lemma example_access_token:
  "create_access_token plain_jose example_settings 1700000000123456 ''alice'' =
     Inr (put_claims
            [(''sub'', Str ''alice''), (''type'', Str ''access''),
             (''iat'', Num 1700000000), (''exp'', Num 1700000900)]
            (put_str ''HS256'' (put_str ''s3cret'' [])))"
  by (simp add: create_access_token_def timedelta_minutes_def mk_timedelta_def
      timedelta_min_def timedelta_max_def example_settings_def create_token_def
      datetime_add_def datetime_min_def datetime_max_def jwt_encode_def to_intdate_def
      timestamp_int_exact timegm_utc_def plain_jose_def plain_sign_def serializable_def)

text \<open>
  C2. For every subject, under a signing library that verifies what it signed and accepts
  the configured key, a clock at or after the epoch and less than \<open>2 ^ 34\<close> seconds
  after it, and positive configured durations whose expiry dates are representable, \<open>create_access_token\<close> and \<open>create_refresh_token\<close>
  return two different token strings; decoding each yields claims whose \<open>exp\<close> minus
  \<open>iat\<close> is \<open>ACCESS_TOKEN_MINUTES * 60\<close> and \<open>REFRESH_TOKEN_DAYS * 86400\<close> seconds
  respectively.
\<close>

theorem access_and_refresh_tokens:
  assumes sound: "verify_inverts_sign L"
    and accepts: "signer_accepts L (JWT_SECRET_KEY S) (JWT_ALG S)"
    and clock: "0 \<le> now_a" "0 \<le> now_r"
    and before: "now_a < 17179869184000000" "now_r < 17179869184000000"
    and positive: "0 < ACCESS_TOKEN_MINUTES S" "0 < REFRESH_TOKEN_DAYS S"
    and in_range: "now_a + ACCESS_TOKEN_MINUTES S * 60000000 \<le> datetime_max"
      "now_r + REFRESH_TOKEN_DAYS S * 86400000000 \<le> datetime_max"
  shows "\<exists>ta tr ca cr ea ia er ir.
           create_access_token L S now_a sub = Inr ta \<and>
           create_refresh_token L S now_r sub = Inr tr \<and>
           ta \<noteq> tr \<and>
           jws_verify L ta (JWT_SECRET_KEY S) (JWT_ALG S) = Inr ca \<and>
           jws_verify L tr (JWT_SECRET_KEY S) (JWT_ALG S) = Inr cr \<and>
           claim_int ca ''exp'' = Some ea \<and> claim_int ca ''iat'' = Some ia \<and>
           ea - ia = ACCESS_TOKEN_MINUTES S * 60 \<and>
           claim_int cr ''exp'' = Some er \<and> claim_int cr ''iat'' = Some ir \<and>
           er - ir = REFRESH_TOKEN_DAYS S * 86400"
proof -
  let ?da = "ACCESS_TOKEN_MINUTES S * 60000000"
  let ?dr = "REFRESH_TOKEN_DAYS S * 86400000000"
  let ?ca = "signed_claims now_a sub ''access'' ?da"
  let ?cr = "signed_claims now_r sub ''refresh'' ?dr"
  let ?key = "JWT_SECRET_KEY S"
  let ?alg = "JWT_ALG S"
  from accepts obtain ta where ta: "jws_sign L ?ca ?key ?alg = Inr ta"
    unfolding signer_accepts_def using serializable_signed_claims by blast
  from accepts obtain tr where tr: "jws_sign L ?cr ?key ?alg = Inr tr"
    unfolding signer_accepts_def using serializable_signed_claims by blast
  have ra: "datetime_min \<le> now_a + ?da" "now_a + ?da \<le> datetime_max"
    using clock positive in_range by (simp_all add: datetime_min_def)
  have rr: "datetime_min \<le> now_r + ?dr" "now_r + ?dr \<le> datetime_max"
    using clock positive in_range by (simp_all add: datetime_min_def)
  have "timedelta_minutes (ACCESS_TOKEN_MINUTES S) = Inr ?da"
    using clock positive in_range
    by (simp add: timedelta_minutes_def mk_timedelta_def timedelta_min_def timedelta_max_def
        datetime_max_def)
  then have a: "create_access_token L S now_a sub = Inr ta"
    using ta ra by (simp add: create_access_token_def create_token_in_range)
  have "timedelta_days (REFRESH_TOKEN_DAYS S) = Inr ?dr"
    using clock positive in_range
    by (simp add: timedelta_days_def mk_timedelta_def timedelta_min_def timedelta_max_def
        datetime_max_def)
  then have r: "create_refresh_token L S now_r sub = Inr tr"
    using tr rr by (simp add: create_refresh_token_def create_token_in_range)
  have va: "jws_verify L ta ?key ?alg = Inr ?ca"
    using sound ta by (simp add: verify_inverts_sign_def)
  have vr: "jws_verify L tr ?key ?alg = Inr ?cr"
    using sound tr by (simp add: verify_inverts_sign_def)
  have neq: "ta \<noteq> tr"
  proof
    assume "ta = tr"
    with va vr have "?ca = ?cr" by simp
    then show False by (simp add: signed_claims_def)
  qed
  have la: "timegm_utc (now_a + ?da) - timestamp_int now_a = ACCESS_TOKEN_MINUTES S * 60"
    using whole_seconds [OF clock(1) before(1), of "ACCESS_TOKEN_MINUTES S * 60"]
    by (simp add: mult.commute)
  have lr: "timegm_utc (now_r + ?dr) - timestamp_int now_r = REFRESH_TOKEN_DAYS S * 86400"
    using whole_seconds [OF clock(2) before(2), of "REFRESH_TOKEN_DAYS S * 86400"]
    by (simp add: mult.commute)
  show ?thesis
    using a r neq va vr la lr claim_int_signed by blast
qed

theorem access_and_refresh_tokens_witness:
  "verify_inverts_sign plain_jose \<and>
   signer_accepts plain_jose (JWT_SECRET_KEY example_settings) (JWT_ALG example_settings) \<and>
   (0::int) \<le> 1700000000123456 \<and> (0::int) \<le> 1700000003000001 \<and>
   (1700000000123456::int) < 17179869184000000 \<and>
   (1700000003000001::int) < 17179869184000000 \<and>
   0 < ACCESS_TOKEN_MINUTES example_settings \<and> 0 < REFRESH_TOKEN_DAYS example_settings \<and>
   1700000000123456 + ACCESS_TOKEN_MINUTES example_settings * 60000000 \<le> datetime_max \<and>
   1700000003000001 + REFRESH_TOKEN_DAYS example_settings * 86400000000 \<le> datetime_max \<and>
   (\<exists>ta tr ca cr ea ia er ir.
      create_access_token plain_jose example_settings 1700000000123456 ''alice'' = Inr ta \<and>
      create_refresh_token plain_jose example_settings 1700000003000001 ''alice'' = Inr tr \<and>
      ta \<noteq> tr \<and>
      jws_verify plain_jose ta (JWT_SECRET_KEY example_settings) (JWT_ALG example_settings)
        = Inr ca \<and>
      jws_verify plain_jose tr (JWT_SECRET_KEY example_settings) (JWT_ALG example_settings)
        = Inr cr \<and>
      claim_int ca ''exp'' = Some ea \<and> claim_int ca ''iat'' = Some ia \<and> ea - ia = 900 \<and>
      claim_int cr ''exp'' = Some er \<and> claim_int cr ''iat'' = Some ir \<and> er - ir = 604800)"
proof -
  have acc: "signer_accepts plain_jose (JWT_SECRET_KEY example_settings) (JWT_ALG example_settings)"
    using plain_jose_accepts by (simp add: example_settings_def)
  have c: "(0::int) \<le> 1700000000123456" "(0::int) \<le> 1700000003000001" by simp_all
  have b: "(1700000000123456::int) < 17179869184000000"
    "(1700000003000001::int) < 17179869184000000" by simp_all
  have p: "0 < ACCESS_TOKEN_MINUTES example_settings" "0 < REFRESH_TOKEN_DAYS example_settings"
    by (simp_all add: example_settings_def)
  have r: "1700000000123456 + ACCESS_TOKEN_MINUTES example_settings * 60000000 \<le> datetime_max"
    "1700000003000001 + REFRESH_TOKEN_DAYS example_settings * 86400000000 \<le> datetime_max"
    by (simp_all add: example_settings_def datetime_max_def)
  have m: "ACCESS_TOKEN_MINUTES example_settings * 60 = 900"
    "REFRESH_TOKEN_DAYS example_settings * 86400 = 604800"
    by (simp_all add: example_settings_def)
  show ?thesis
    using access_and_refresh_tokens [OF plain_jose_inverts acc c b p r, of "''alice''"]
      plain_jose_inverts acc p r
    unfolding m by simp
qed

text \<open>
  C3 as stated does not hold: with the empty string as secret key \<open>create_token\<close>
  returns a token when the signer takes the empty key, as an HMAC signer does.
\<close>

theorem empty_key_counterexample:
  "create_token plain_jose (example_settings\<lparr>JWT_SECRET_KEY := Some ''''\<rparr>)
     1700000000123456 ''alice'' ''access'' 900000000 =
     Inr (put_claims
            [(''sub'', Str ''alice''), (''type'', Str ''access''),
             (''iat'', Num 1700000000), (''exp'', Num 1700000900)]
            (put_str ''HS256'' (put_str '''' [])))"
  by (simp add: example_settings_def create_token_def
      datetime_add_def datetime_min_def datetime_max_def jwt_encode_def to_intdate_def
      timestamp_int_exact timegm_utc_def plain_jose_def plain_sign_def serializable_def)

text \<open>
  C3, amended. \<open>create_token\<close> has no check of the secret key of its own. For every
  subject, token kind and lifetime, if the signing library refuses the configured key and
  algorithm, as it does when no key is configured, then \<open>create_token\<close> fails with the
  library's \<open>JWSError\<close>, or with \<open>OverflowError\<close> when the expiry date is out of range,
  and returns no token string.
\<close>

theorem create_token_fails_when_signer_rejects:
  assumes "signer_rejects L (JWT_SECRET_KEY S) (JWT_ALG S)"
  shows "create_token L S now sub token_type d = Inl JWSError \<or>
         create_token L S now sub token_type d = Inl OverflowError"
proof (cases "datetime_min \<le> now + d \<and> now + d \<le> datetime_max")
  case True
  with assms show ?thesis by (simp add: create_token_in_range signer_rejects_def)
next
  case False
  then show ?thesis by (simp add: create_token_out_of_range)
qed

theorem create_token_fails_when_signer_rejects_witness:
  "signer_rejects plain_jose (JWT_SECRET_KEY (example_settings\<lparr>JWT_SECRET_KEY := None\<rparr>))
     (JWT_ALG (example_settings\<lparr>JWT_SECRET_KEY := None\<rparr>)) \<and>
   (create_token plain_jose (example_settings\<lparr>JWT_SECRET_KEY := None\<rparr>)
      1700000000123456 ''alice'' ''access'' 900000000 = Inl JWSError \<or>
    create_token plain_jose (example_settings\<lparr>JWT_SECRET_KEY := None\<rparr>)
      1700000000123456 ''alice'' ''access'' 900000000 = Inl OverflowError)"
proof -
  have r: "signer_rejects plain_jose (JWT_SECRET_KEY (example_settings\<lparr>JWT_SECRET_KEY := None\<rparr>))
     (JWT_ALG (example_settings\<lparr>JWT_SECRET_KEY := None\<rparr>))"
    using plain_jose_rejects_no_key by simp
  show ?thesis
    using create_token_fails_when_signer_rejects [OF r, of 1700000000123456 "''alice''"
        "''access''" 900000000] r
    by blast
qed

text \<open>
  C5. For every subject and token kind, a token created by \<open>create_token\<close>, or by the
  access or refresh wrapper for its kind, decodes under the key and algorithm that signed
  it to claims whose \<open>sub\<close> is the subject and whose \<open>type\<close> is the kind.
\<close>

theorem decode_created_token:
  assumes "verify_inverts_sign L"
    and "create_token L S now sub kind d = Inr token \<or>
         kind = ''access'' \<and> create_access_token L S now sub = Inr token \<or>
         kind = ''refresh'' \<and> create_refresh_token L S now sub = Inr token"
  shows "\<exists>cs. jws_verify L token (JWT_SECRET_KEY S) (JWT_ALG S) = Inr cs \<and>
           claim_str cs ''sub'' = Some sub \<and> claim_str cs ''type'' = Some kind"
proof -
  from assms(2) obtain d' where "create_token L S now sub kind d' = Inr token"
    using create_access_token_Inr create_refresh_token_Inr by blast
  then have "jws_sign L (signed_claims now sub kind d') (JWT_SECRET_KEY S) (JWT_ALG S) = Inr token"
    by (rule create_token_Inr)
  with assms(1) have
    "jws_verify L token (JWT_SECRET_KEY S) (JWT_ALG S) = Inr (signed_claims now sub kind d')"
    by (simp add: verify_inverts_sign_def)
  then show ?thesis
    by (simp add: claim_str_signed)
qed

theorem decode_created_token_witness:
  "verify_inverts_sign plain_jose \<and>
   create_access_token plain_jose example_settings 1700000000123456 ''alice'' =
     Inr (put_claims
            [(''sub'', Str ''alice''), (''type'', Str ''access''),
             (''iat'', Num 1700000000), (''exp'', Num 1700000900)]
            (put_str ''HS256'' (put_str ''s3cret'' []))) \<and>
   (\<exists>cs. jws_verify plain_jose
           (put_claims
              [(''sub'', Str ''alice''), (''type'', Str ''access''),
               (''iat'', Num 1700000000), (''exp'', Num 1700000900)]
              (put_str ''HS256'' (put_str ''s3cret'' [])))
           (JWT_SECRET_KEY example_settings) (JWT_ALG example_settings) = Inr cs \<and>
      claim_str cs ''sub'' = Some ''alice'' \<and> claim_str cs ''type'' = Some ''access'')"
  using decode_created_token [OF plain_jose_inverts, of example_settings 1700000000123456
      "''alice''" "''access''" 0
      "put_claims
         [(''sub'', Str ''alice''), (''type'', Str ''access''),
          (''iat'', Num 1700000000), (''exp'', Num 1700000900)]
         (put_str ''HS256'' (put_str ''s3cret'' []))"]
    plain_jose_inverts example_access_token
  by simp

text \<open>
  C8 as stated does not hold. A positive lifetime of one microsecond gives a token whose
  \<open>exp\<close> equals its \<open>iat\<close>, because both claims are whole seconds. A lifetime of
  exactly one second does so too when the clock reads half a second before the epoch, where
  \<open>int\<close> truncates \<open>iat\<close> up to zero, and when it reads one microsecond less than
  \<open>2 ^ 34 + 1\<close> seconds, where the float timestamp rounds \<open>iat\<close> up to the next
  second.
\<close>

theorem expiry_equals_issue_counterexample:
  "(0::int) < 1 \<and>
   create_token plain_jose example_settings 1700000000123456 ''alice'' ''access'' 1 =
     Inr (put_claims
            [(''sub'', Str ''alice''), (''type'', Str ''access''),
             (''iat'', Num 1700000000), (''exp'', Num 1700000000)]
            (put_str ''HS256'' (put_str ''s3cret'' []))) \<and>
   jws_verify plain_jose
     (put_claims
        [(''sub'', Str ''alice''), (''type'', Str ''access''),
         (''iat'', Num 1700000000), (''exp'', Num 1700000000)]
        (put_str ''HS256'' (put_str ''s3cret'' [])))
     (JWT_SECRET_KEY example_settings) (JWT_ALG example_settings) =
     Inr [(''sub'', Str ''alice''), (''type'', Str ''access''),
          (''iat'', Num 1700000000), (''exp'', Num 1700000000)] \<and>
   create_token plain_jose example_settings (- 500000) ''alice'' ''access'' 1000000 =
     Inr (put_claims
            [(''sub'', Str ''alice''), (''type'', Str ''access''),
             (''iat'', Num 0), (''exp'', Num 0)]
            (put_str ''HS256'' (put_str ''s3cret'' []))) \<and>
   jws_verify plain_jose
     (put_claims
        [(''sub'', Str ''alice''), (''type'', Str ''access''),
         (''iat'', Num 0), (''exp'', Num 0)]
        (put_str ''HS256'' (put_str ''s3cret'' [])))
     (JWT_SECRET_KEY example_settings) (JWT_ALG example_settings) =
     Inr [(''sub'', Str ''alice''), (''type'', Str ''access''),
          (''iat'', Num 0), (''exp'', Num 0)] \<and>
   create_token plain_jose example_settings 17179869184999999 ''alice'' ''access'' 1000000 =
     Inr (put_claims
            [(''sub'', Str ''alice''), (''type'', Str ''access''),
             (''iat'', Num 17179869185), (''exp'', Num 17179869185)]
            (put_str ''HS256'' (put_str ''s3cret'' []))) \<and>
   jws_verify plain_jose
     (put_claims
        [(''sub'', Str ''alice''), (''type'', Str ''access''),
         (''iat'', Num 17179869185), (''exp'', Num 17179869185)]
        (put_str ''HS256'' (put_str ''s3cret'' [])))
     (JWT_SECRET_KEY example_settings) (JWT_ALG example_settings) =
     Inr [(''sub'', Str ''alice''), (''type'', Str ''access''),
          (''iat'', Num 17179869185), (''exp'', Num 17179869185)]"
  by (simp add: example_settings_def create_token_def
      datetime_add_def datetime_min_def datetime_max_def jwt_encode_def to_intdate_def
      timestamp_int_exact timestamp_int_before_epoch timestamp_int_rounds_up
      timegm_utc_def plain_jose_def plain_sign_def plain_verify_def
      serializable_def get_put_claims get_put_str)

text \<open>
  C8, amended. Every token issued by \<open>create_token\<close> with a lifetime of at least two
  seconds, or with a lifetime of at least one second while the clock reads a time at or
  after the epoch and less than \<open>2 ^ 34\<close> seconds after it, has \<open>exp\<close> greater than
  \<open>iat\<close>; hence so has every token issued by \<open>create_access_token\<close> and
  \<open>create_refresh_token\<close> under positive configured durations.
\<close>

theorem expiry_after_issue:
  assumes "verify_inverts_sign L"
    and "(2000000 \<le> d \<or> 1000000 \<le> d \<and> 0 \<le> now \<and> now < 17179869184000000) \<and>
           create_token L S now sub kind d = Inr token \<or>
         0 < ACCESS_TOKEN_MINUTES S \<and> create_access_token L S now sub = Inr token \<or>
         0 < REFRESH_TOKEN_DAYS S \<and> create_refresh_token L S now sub = Inr token"
  shows "\<exists>cs e i. jws_verify L token (JWT_SECRET_KEY S) (JWT_ALG S) = Inr cs \<and>
           claim_int cs ''exp'' = Some e \<and> claim_int cs ''iat'' = Some i \<and> i < e"
proof -
  from assms(2) obtain k d' where
    c: "create_token L S now sub k d' = Inr token" and
    d': "2000000 \<le> d' \<or> 1000000 \<le> d' \<and> 0 \<le> now \<and> now < 17179869184000000"
  proof (elim disjE conjE)
    assume "2000000 \<le> d" "create_token L S now sub kind d = Inr token"
    then show ?thesis using that by blast
  next
    assume "1000000 \<le> d" "0 \<le> now" "now < 17179869184000000"
      "create_token L S now sub kind d = Inr token"
    then show ?thesis using that by blast
  next
    assume "0 < ACCESS_TOKEN_MINUTES S" "create_access_token L S now sub = Inr token"
    then show ?thesis
      using that [of "''access''" "ACCESS_TOKEN_MINUTES S * 60000000"] create_access_token_Inr
      by simp
  next
    assume "0 < REFRESH_TOKEN_DAYS S" "create_refresh_token L S now sub = Inr token"
    then show ?thesis
      using that [of "''refresh''" "REFRESH_TOKEN_DAYS S * 86400000000"]
        create_refresh_token_Inr
      by simp
  qed
  from c have "jws_sign L (signed_claims now sub k d') (JWT_SECRET_KEY S) (JWT_ALG S) = Inr token"
    by (rule create_token_Inr)
  with assms(1) have
    "jws_verify L token (JWT_SECRET_KEY S) (JWT_ALG S) = Inr (signed_claims now sub k d')"
    by (simp add: verify_inverts_sign_def)
  moreover have "timestamp_int now < timegm_utc (now + d')"
    using d' at_least_two_seconds at_least_a_second by blast
  ultimately show ?thesis
    using claim_int_signed by blast
qed

theorem expiry_after_issue_witness:
  "verify_inverts_sign plain_jose \<and>
   0 < ACCESS_TOKEN_MINUTES example_settings \<and>
   create_access_token plain_jose example_settings 1700000000123456 ''alice'' =
     Inr (put_claims
            [(''sub'', Str ''alice''), (''type'', Str ''access''),
             (''iat'', Num 1700000000), (''exp'', Num 1700000900)]
            (put_str ''HS256'' (put_str ''s3cret'' []))) \<and>
   (\<exists>cs e i.
      jws_verify plain_jose
        (put_claims
           [(''sub'', Str ''alice''), (''type'', Str ''access''),
            (''iat'', Num 1700000000), (''exp'', Num 1700000900)]
           (put_str ''HS256'' (put_str ''s3cret'' [])))
        (JWT_SECRET_KEY example_settings) (JWT_ALG example_settings) = Inr cs \<and>
      claim_int cs ''exp'' = Some e \<and> claim_int cs ''iat'' = Some i \<and> i < e)"
proof -
  have p: "0 < ACCESS_TOKEN_MINUTES example_settings" by (simp add: example_settings_def)
  show ?thesis
    using expiry_after_issue [OF plain_jose_inverts, of 0 1700000000123456 example_settings
        "''alice''" "''access''"
        "put_claims
           [(''sub'', Str ''alice''), (''type'', Str ''access''),
            (''iat'', Num 1700000000), (''exp'', Num 1700000900)]
           (put_str ''HS256'' (put_str ''s3cret'' []))"]
      plain_jose_inverts p example_access_token
    by simp
qed

text \<open>
  C10. \<open>create_token\<close> does not validate the token kind: for every string, also one
  other than \<open>access\<close> and \<open>refresh\<close>, it returns a token whenever the signer accepts
  the configured key and the expiry date is representable, and the signed claims carry that
  string unchanged under \<open>type\<close>.
\<close>

theorem create_token_any_kind:
  assumes "verify_inverts_sign L"
    and "signer_accepts L (JWT_SECRET_KEY S) (JWT_ALG S)"
    and "datetime_min \<le> now + d" and "now + d \<le> datetime_max"
  shows "\<exists>token cs. create_token L S now sub token_type d = Inr token \<and>
           jws_verify L token (JWT_SECRET_KEY S) (JWT_ALG S) = Inr cs \<and>
           claim_str cs ''type'' = Some token_type"
proof -
  from assms(2) obtain token where
    t: "jws_sign L (signed_claims now sub token_type d) (JWT_SECRET_KEY S) (JWT_ALG S) = Inr token"
    unfolding signer_accepts_def using serializable_signed_claims by blast
  with assms(1) have
    "jws_verify L token (JWT_SECRET_KEY S) (JWT_ALG S) = Inr (signed_claims now sub token_type d)"
    by (simp add: verify_inverts_sign_def)
  with t assms(3,4) show ?thesis
    by (simp add: create_token_in_range claim_str_signed)
qed

theorem create_token_any_kind_witness:
  "verify_inverts_sign plain_jose \<and>
   signer_accepts plain_jose (JWT_SECRET_KEY example_settings) (JWT_ALG example_settings) \<and>
   datetime_min \<le> 1700000000123456 + 900000000 \<and>
   1700000000123456 + 900000000 \<le> datetime_max \<and>
   (\<exists>token cs.
      create_token plain_jose example_settings 1700000000123456 ''alice'' ''bogus'' 900000000
        = Inr token \<and>
      jws_verify plain_jose token (JWT_SECRET_KEY example_settings) (JWT_ALG example_settings)
        = Inr cs \<and>
      claim_str cs ''type'' = Some ''bogus'')"
proof -
  have a: "signer_accepts plain_jose (JWT_SECRET_KEY example_settings) (JWT_ALG example_settings)"
    using plain_jose_accepts by (simp add: example_settings_def)
  have lo: "datetime_min \<le> 1700000000123456 + 900000000" by (simp add: datetime_min_def)
  have hi: "1700000000123456 + 900000000 \<le> datetime_max" by (simp add: datetime_max_def)
  show ?thesis
    using create_token_any_kind [OF plain_jose_inverts a lo hi, of "''alice''" "''bogus''"]
      plain_jose_inverts a lo hi
    by simp
qed

end
